theory Spec2Isabelle
  imports Complex_Main "HOL-Library.Log_Nat"
begin

section \<open>The billing server\<close>

text \<open>
  The model follows \<^verbatim>\<open>src/server.js\<close>. A Mongoose document is a record, a collection
  that the handlers look up by \<^verbatim>\<open>_id\<close> is a map from ids to documents, a collection
  that they only append to is a list in insertion order. A JavaScript Number is an IEEE
  binary64 value with the arithmetic of the next section. An ObjectId is a natural number,
  drawn from a counter kept in the database state. The fields \<^verbatim>\<open>description\<close> and
  \<^verbatim>\<open>createdAt\<close> and the catalogue fields no billing handler reads (barcode, type, size,
  taxRate, lowStockThreshold, address) are left out. Field names are the schema's; where
  two schemas share a name a short prefix tells them apart. Requests are handled one
  after the other.
\<close>

section \<open>JavaScript Numbers\<close>

text \<open>
  A JavaScript Number is an IEEE 754 binary64 value: a finite value, one of the two
  infinities, or NaN. A finite value is given by the rational it denotes; the sign of zero
  is not modelled (the handlers never divide by a zero and never print one, and \<open>-0\<close>
  compares, adds and tests like \<open>0\<close>). Every arithmetic operation computes the exact
  result and rounds it to the nearest binary64 value, ties to the even significand.
\<close>

datatype number = Finite rat | PosInf | NegInf | NaN

text \<open>Rounding a rational to the nearest integer, a tie going to the even one.\<close>

definition round_half_even :: "rat \<Rightarrow> int" where
  "round_half_even x =
     (let f = \<lfloor>x\<rfloor>; d = x - of_int f
      in if d < 1 / 2 then f
         else if 1 / 2 < d then f + 1
         else if even f then f else f + 1)"

text \<open>
  The binary exponent of a rational \<open>x \<noteq> 0\<close>: the integer \<open>e\<close> with
  \<open>2^e \<le> \<bar>x\<bar> < 2^(e+1)\<close>, read off the bit length of \<open>\<lfloor>\<bar>x\<bar>\<rfloor>\<close> when
  \<open>\<bar>x\<bar> \<ge> 1\<close> and of \<open>\<lceil>1/\<bar>x\<bar>\<rceil> - 1\<close> otherwise.
\<close>

definition ilog2 :: "rat \<Rightarrow> int" where
  "ilog2 x =
     (if 1 \<le> \<bar>x\<bar> then bitlen \<lfloor>\<bar>x\<bar>\<rfloor> - 1
      else - bitlen (\<lceil>1 / \<bar>x\<bar>\<rceil> - 1))"

text \<open>
  Rounding to binary64. With \<open>e\<close> the exponent of \<open>x\<close> (at least -1022, below which
  the values are subnormal and share the spacing \<open>2^-1074\<close>), the binary64 values near
  \<open>x\<close> are the multiples of \<open>2^(e-52)\<close>; \<open>x\<close> goes to the nearest, ties to the even
  multiple. The result overflows to an infinity when it reaches \<open>2^1024\<close>: when
  \<open>e > 1023\<close>, or \<open>e = 1023\<close> and the rounded significand is \<open>2^53\<close>.
\<close>

definition infinity_of :: "rat \<Rightarrow> number" where
  "infinity_of x = (if 0 < x then PosInf else NegInf)"

definition round_double :: "rat \<Rightarrow> number" where
  "round_double x =
     (if x = 0 then Finite 0
      else
        let e = max (ilog2 x) (- 1022)
        in if 1023 < e then infinity_of x
           else
             let q = 2 powi (e - 52);
                 n = round_half_even (x / q)
             in if e = 1023 \<and> 2 ^ 53 \<le> \<bar>n\<bar> then infinity_of x
                else Finite (of_int n * q))"

text \<open>Unary minus and \<^verbatim>\<open>Math.abs\<close>.\<close>

fun fneg :: "number \<Rightarrow> number" where
  "fneg (Finite x) = Finite (- x)"
| "fneg PosInf = NegInf"
| "fneg NegInf = PosInf"
| "fneg NaN = NaN"

fun fabs :: "number \<Rightarrow> number" where
  "fabs (Finite x) = Finite \<bar>x\<bar>"
| "fabs PosInf = PosInf"
| "fabs NegInf = PosInf"
| "fabs NaN = NaN"

text \<open>\<^verbatim>\<open>a + b\<close>, \<^verbatim>\<open>a - b\<close> (the sum of \<open>a\<close> and \<open>-b\<close>), \<^verbatim>\<open>a * b\<close> and \<^verbatim>\<open>a / b\<close>.\<close>

fun fadd :: "number \<Rightarrow> number \<Rightarrow> number" where
  "fadd (Finite x) (Finite y) = round_double (x + y)"
| "fadd NaN b = NaN"
| "fadd a NaN = NaN"
| "fadd PosInf NegInf = NaN"
| "fadd NegInf PosInf = NaN"
| "fadd PosInf b = PosInf"
| "fadd NegInf b = NegInf"
| "fadd a PosInf = PosInf"
| "fadd a NegInf = NegInf"

definition fsub :: "number \<Rightarrow> number \<Rightarrow> number" where
  "fsub a b = fadd a (fneg b)"

fun fmul :: "number \<Rightarrow> number \<Rightarrow> number" where
  "fmul (Finite x) (Finite y) = round_double (x * y)"
| "fmul NaN b = NaN"
| "fmul a NaN = NaN"
| "fmul (Finite x) PosInf = (if x = 0 then NaN else infinity_of x)"
| "fmul (Finite x) NegInf = (if x = 0 then NaN else infinity_of (- x))"
| "fmul PosInf (Finite y) = (if y = 0 then NaN else infinity_of y)"
| "fmul NegInf (Finite y) = (if y = 0 then NaN else infinity_of (- y))"
| "fmul PosInf PosInf = PosInf"
| "fmul PosInf NegInf = NegInf"
| "fmul NegInf PosInf = NegInf"
| "fmul NegInf NegInf = PosInf"

text \<open>
  Division. The handlers divide by the literal 100 only; a zero divisor is taken as
  \<open>+0\<close>.
\<close>

fun fdiv :: "number \<Rightarrow> number \<Rightarrow> number" where
  "fdiv (Finite x) (Finite y) =
     (if y = 0 then (if x = 0 then NaN else infinity_of x) else round_double (x / y))"
| "fdiv NaN b = NaN"
| "fdiv a NaN = NaN"
| "fdiv (Finite x) PosInf = Finite 0"
| "fdiv (Finite x) NegInf = Finite 0"
| "fdiv PosInf (Finite y) = (if 0 \<le> y then PosInf else NegInf)"
| "fdiv NegInf (Finite y) = (if 0 \<le> y then NegInf else PosInf)"
| "fdiv PosInf b = NaN"
| "fdiv NegInf b = NaN"

text \<open>\<^verbatim>\<open>a < b\<close> and \<^verbatim>\<open>a <= b\<close>: false as soon as one side is NaN.\<close>

fun flt :: "number \<Rightarrow> number \<Rightarrow> bool" where
  "flt (Finite x) (Finite y) = (x < y)"
| "flt NaN b = False"
| "flt a NaN = False"
| "flt a NegInf = False"
| "flt PosInf b = False"
| "flt NegInf b = True"
| "flt a PosInf = True"

fun fle :: "number \<Rightarrow> number \<Rightarrow> bool" where
  "fle (Finite x) (Finite y) = (x \<le> y)"
| "fle NaN b = False"
| "fle a NaN = False"
| "fle NegInf b = True"
| "fle a PosInf = True"
| "fle a NegInf = False"
| "fle PosInf b = False"

text \<open>\<^verbatim>\<open>!x\<close> on a Number: true of 0 and of NaN.\<close>

fun falsy :: "number \<Rightarrow> bool" where
  "falsy (Finite x) = (x = 0)"
| "falsy NaN = True"
| "falsy PosInf = False"
| "falsy NegInf = False"


section \<open>Documents, collections, replies\<close>

type_synonym oid = nat

record item =
  name :: string
  costPrice :: "number option"
  sellingPrice :: number
  stock :: number

record customer =
  c_name :: string
  phone :: string
  accountNumber :: string
  balance :: number

record bill_line =
  itemId :: oid
  quantity :: number
  unitPrice :: number
  customPrice :: number
  unitCost :: number
  total :: number
  totalCost :: number

record bill =
  b_customerId :: oid
  b_items :: "bill_line list"
  subtotal :: number
  markup :: number
  discount :: number
  grandTotal :: number
  grandTotalCost :: number
  paymentType :: string
  partialPayment :: number
  status :: string

record payment =
  p_id :: oid
  p_customerId :: oid
  p_amount :: number
  paymentMethod :: string

record transaction =
  t_id :: oid
  t_customerId :: oid
  t_billId :: "oid option"
  t_paymentId :: "oid option"
  t_amount :: number
  t_type :: string

record refund_line =
  r_itemId :: oid
  r_quantity :: number

record refund =
  f_id :: oid
  f_billId :: oid
  f_customerId :: oid
  f_amount :: number
  f_items :: "refund_line list"
  f_reason :: string

record db =
  Items :: "oid \<rightharpoonup> item"
  Customers :: "oid \<rightharpoonup> customer"
  Bills :: "oid \<rightharpoonup> bill"
  Payments :: "payment list"
  Transactions :: "transaction list"
  Refunds :: "refund list"
  next_oid :: oid

subsection \<open>Request bodies\<close>

text \<open>
  \<^verbatim>\<open>express.json()\<close> hands each handler a parsed body. An id that is absent (or
  otherwise falsy) is \<open>None\<close>; a string that is absent or empty is the empty string; a
  line number that is absent is \<open>0\<close>, which JavaScript's \<^verbatim>\<open>!x\<close> treats like
  absence. The numeric fields of a bill body are Numbers by type, so the \<^verbatim>\<open>typeof\<close>
  tests of lines 251-256 hold by typing (a body with another type there gets the same 400
  reply as a number out of range). JSON has no NaN, so a body read from the wire holds
  none; the model says what the handlers do with one all the same. Ids are well-formed
  ObjectIds.
\<close>

record line_body =
  l_itemId :: "oid option"
  l_quantity :: number
  l_unitPrice :: number
  l_customPrice :: number
  l_total :: number

record bill_body =
  q_customerId :: "oid option"
  q_items :: "line_body list"
  q_subtotal :: number
  q_markup :: number
  q_discount :: number
  q_grandTotal :: number
  q_paymentType :: string
  q_partialPayment :: number


record refund_body =
  rq_billId :: "oid option"
  rq_customerId :: "oid option"
  rq_amount :: number
  rq_items :: "refund_line list"
  rq_reason :: string


subsection \<open>Errors and replies\<close>

text \<open>
  Every \<^verbatim>\<open>res.status(n).json({ error: ... })\<close> is a reply \<open>(n, Error e)\<close>; the
  constructor of \<open>e\<close> stands for the message text and carries the values the message
  interpolates. \<open>Invalid\<close> carries the list that line 257 joins with \<^verbatim>\<open>'; '\<close>.
  \<open>EnumValidation path value\<close> is the error Mongoose's \<^verbatim>\<open>save()\<close> throws when a
  string is not in the \<^verbatim>\<open>enum\<close> its schema declares for that path, and
  \<open>NumberCastFailed path\<close> the error it throws when a Number path holds NaN, which
  Mongoose does not cast to a Number.
\<close>

datatype input_error =
    CustomerIdRequired
  | ItemsMustBeNonEmpty
  | SubtotalMustBePositive
  | MarkupOutOfRange
  | DiscountOutOfRange
  | GrandTotalMustBePositive
  | PaymentTypeInvalid
  | PartialPaymentNegative

datatype error =
    Invalid "input_error list"
  | CustomerNotFound oid
  | LineFieldsRequired nat
  | ItemNotFound nat oid
  | InsufficientStock nat string number
  | CostPriceMissing nat
  | SubtotalMismatch number number
  | GrandTotalMismatch number number
  | InvalidPaymentData
  | InvalidRefundData
  | BillNotFoundOrRefunded
  | InvalidRefundQuantity oid
  | EnumValidation string string
  | NumberCastFailed string
  | CustomerFieldsRequired
  | AccountNumberExists

datatype body =
    Error error
  | BillCreated oid bill "transaction list"
  | PaymentRecorded payment transaction
  | RefundProcessed refund transaction
  | CustomerCreated oid customer

type_synonym reply = "nat \<times> body"

section \<open>Mongoose operations\<close>

text \<open>The schema enums of lines 66, 68, 77 and 89.\<close>

definition billSchema_paymentType_enum :: "string list" where
  "billSchema_paymentType_enum = [''cash'', ''credit'']"

definition billSchema_status_enum :: "string list" where
  "billSchema_status_enum = [''completed'', ''pending'']"

definition paymentSchema_paymentMethod_enum :: "string list" where
  "paymentSchema_paymentMethod_enum = [''cash'', ''credit'']"

definition transactionSchema_type_enum :: "string list" where
  "transactionSchema_type_enum = [''bill'', ''payment'', ''refund'']"

text \<open>
  \<^verbatim>\<open>new Model(...)\<close> draws a fresh \<^verbatim>\<open>_id\<close>. \<^verbatim>\<open>doc.save()\<close> validates the document
  against its schema and throws on failure (\<open>Inl\<close>), else writes it. The required
  fields are present by typing; the validators left are the cast of every Number path
  (it fails on NaN; an infinity is a Number) and the enums. Of several failures the model
  reports the first in the order below; the handler's \<^verbatim>\<open>catch\<close> answers 400 for each.
\<close>

definition new_oid :: "db \<Rightarrow> oid \<times> db" where
  "new_oid s = (next_oid s, s\<lparr>next_oid := Suc (next_oid s)\<rparr>)"

definition first_NaN :: "(string \<times> number) list \<Rightarrow> string option" where
  "first_NaN ps = map_option fst (find (\<lambda>p. snd p = NaN) ps)"

definition bill_line_numbers :: "bill_line \<Rightarrow> (string \<times> number) list" where
  "bill_line_numbers l =
     [(''items.quantity'', quantity l), (''items.unitPrice'', unitPrice l),
      (''items.customPrice'', customPrice l), (''items.unitCost'', unitCost l),
      (''items.total'', total l), (''items.totalCost'', totalCost l)]"

definition bill_numbers :: "bill \<Rightarrow> (string \<times> number) list" where
  "bill_numbers b =
     concat (map bill_line_numbers (b_items b)) @
     [(''subtotal'', subtotal b), (''markup'', markup b), (''discount'', discount b),
      (''grandTotal'', grandTotal b), (''grandTotalCost'', grandTotalCost b),
      (''partialPayment'', partialPayment b)]"

definition Bill_save :: "oid \<Rightarrow> bill \<Rightarrow> db \<Rightarrow> error + db" where
  "Bill_save i b s =
     (case first_NaN (bill_numbers b) of
        Some path \<Rightarrow> Inl (NumberCastFailed path)
      | None \<Rightarrow>
          if paymentType b \<in> set billSchema_paymentType_enum then
            if status b \<in> set billSchema_status_enum then
              Inr (s\<lparr>Bills := (Bills s)(i \<mapsto> b)\<rparr>)
            else Inl (EnumValidation ''status'' (status b))
          else Inl (EnumValidation ''paymentType'' (paymentType b)))"

definition Payment_save :: "payment \<Rightarrow> db \<Rightarrow> error + db" where
  "Payment_save p s =
     (if p_amount p = NaN then Inl (NumberCastFailed ''amount'')
      else if paymentMethod p \<in> set paymentSchema_paymentMethod_enum then
        Inr (s\<lparr>Payments := Payments s @ [p]\<rparr>)
      else Inl (EnumValidation ''paymentMethod'' (paymentMethod p)))"

definition Transaction_save :: "transaction \<Rightarrow> db \<Rightarrow> error + db" where
  "Transaction_save t s =
     (if t_amount t = NaN then Inl (NumberCastFailed ''amount'')
      else if t_type t \<in> set transactionSchema_type_enum then
        Inr (s\<lparr>Transactions := Transactions s @ [t]\<rparr>)
      else Inl (EnumValidation ''type'' (t_type t)))"

definition Refund_save :: "refund \<Rightarrow> db \<Rightarrow> error + db" where
  "Refund_save f s =
     (if f_amount f = NaN then Inl (NumberCastFailed ''amount'')
      else if list_ex (\<lambda>l. r_quantity l = NaN) (f_items f)
      then Inl (NumberCastFailed ''items.quantity'')
      else Inr (s\<lparr>Refunds := Refunds s @ [f]\<rparr>))"

definition Customer_save :: "oid \<Rightarrow> customer \<Rightarrow> db \<Rightarrow> error + db" where
  "Customer_save i c s =
     (if balance c = NaN then Inl (NumberCastFailed ''balance'')
      else Inr (s\<lparr>Customers := (Customers s)(i \<mapsto> c)\<rparr>))"

text \<open>
  \<^verbatim>\<open>Item.findByIdAndUpdate(id, { $inc: { stock: d } })\<close>: the update is cast (a NaN
  increment throws), then the database adds \<open>d\<close> to the stock of the item if it exists
  and does nothing otherwise; no validator runs. The database adds in the stored type: the
  model takes the binary64 sum, which is also the sum of integers below \<open>2^53\<close>.
\<close>

definition Item_inc_stock :: "oid \<Rightarrow> number \<Rightarrow> db \<Rightarrow> error + db" where
  "Item_inc_stock i d s =
     (if d = NaN then Inl (NumberCastFailed ''stock'')
      else
        (case Items s i of
           None \<Rightarrow> Inr s
         | Some it \<Rightarrow> Inr (s\<lparr>Items := (Items s)(i \<mapsto> it\<lparr>stock := fadd (stock it) d\<rparr>)\<rparr>)))"

section \<open>POST /api/bills\<close>

text \<open>
  Lines 248-256: the input checks, each pushing one message. A comparison with NaN is
  false, so a NaN passes them.
\<close>

definition input_errors :: "bill_body \<Rightarrow> input_error list" where
  "input_errors b =
     (if q_customerId b = None then [CustomerIdRequired] else []) @
     (if q_items b = [] then [ItemsMustBeNonEmpty] else []) @
     (if fle (q_subtotal b) (Finite 0) then [SubtotalMustBePositive] else []) @
     (if flt (q_markup b) (Finite 0) \<or> flt (Finite 100) (q_markup b)
      then [MarkupOutOfRange] else []) @
     (if flt (q_discount b) (Finite 0) \<or> flt (Finite 100) (q_discount b)
      then [DiscountOutOfRange] else []) @
     (if fle (q_grandTotal b) (Finite 0) then [GrandTotalMustBePositive] else []) @
     (if q_paymentType b \<in> set [''cash'', ''credit''] then [] else [PaymentTypeInvalid]) @
     (if flt (q_partialPayment b) (Finite 0) then [PartialPaymentNegative] else [])"

text \<open>
  Lines 264-281: \<^verbatim>\<open>Promise.all(items.map(async (item, index) => ...))\<close>. Every callback
  runs up to its first \<^verbatim>\<open>await\<close> when \<^verbatim>\<open>map\<close> calls it, so a line that fails the
  test of line 265 rejects before any lookup answers: the lowest such index is the error
  thrown. The callbacks only read the database. Among rejections that follow a lookup
  the model reports the lowest index; whichever line rejects first, the handler's
  \<^verbatim>\<open>catch\<close> sends the same status. The test of line 271 is true of a cost price that
  is absent or NaN.
\<close>

definition line_fields_missing :: "line_body \<Rightarrow> bool" where
  "line_fields_missing l =
     (l_itemId l = None \<or> falsy (l_quantity l) \<or> falsy (l_unitPrice l) \<or>
      falsy (l_customPrice l) \<or> falsy (l_total l))"

fun first_missing :: "nat \<Rightarrow> line_body list \<Rightarrow> nat option" where
  "first_missing index [] = None"
| "first_missing index (l # ls) =
     (if line_fields_missing l then Some index else first_missing (Suc index) ls)"

definition populate_line :: "db \<Rightarrow> nat \<Rightarrow> line_body \<Rightarrow> error + bill_line" where
  "populate_line s index l =
     (case l_itemId l of
        None \<Rightarrow> Inl (LineFieldsRequired index)
      | Some i \<Rightarrow>
          if line_fields_missing l then Inl (LineFieldsRequired index)
          else
            (case Items s i of
               None \<Rightarrow> Inl (ItemNotFound index i)
             | Some dbItem \<Rightarrow>
                 if flt (stock dbItem) (l_quantity l)
                 then Inl (InsufficientStock index (name dbItem) (stock dbItem))
                 else
                   (case costPrice dbItem of
                      None \<Rightarrow> Inl (CostPriceMissing index)
                    | Some cost \<Rightarrow>
                        if cost = NaN then Inl (CostPriceMissing index)
                        else
                          Inr \<lparr>itemId = i,
                               quantity = l_quantity l,
                               unitPrice = l_unitPrice l,
                               customPrice = l_customPrice l,
                               unitCost = cost,
                               total = fmul (l_quantity l) (l_customPrice l),
                               totalCost = fmul (l_quantity l) cost\<rparr>)))"

fun populate_lines :: "db \<Rightarrow> nat \<Rightarrow> line_body list \<Rightarrow> error + bill_line list" where
  "populate_lines s index [] = Inr []"
| "populate_lines s index (l # ls) =
     (case populate_line s index l of
        Inl err \<Rightarrow> Inl err
      | Inr p \<Rightarrow>
          (case populate_lines s (Suc index) ls of
             Inl err \<Rightarrow> Inl err
           | Inr ps \<Rightarrow> Inr (p # ps)))"

definition populatedItems :: "db \<Rightarrow> line_body list \<Rightarrow> error + bill_line list" where
  "populatedItems s ls =
     (case first_missing 0 ls of
        Some k \<Rightarrow> Inl (LineFieldsRequired k)
      | None \<Rightarrow> populate_lines s 0 ls)"

text \<open>
  Lines 313-316: one \<^verbatim>\<open>$inc\<close> of \<^verbatim>\<open>-quantity\<close> per populated line, in order; a
  throw leaves the loop with the earlier decrements done.
\<close>

fun update_item_stock :: "bill_line list \<Rightarrow> db \<Rightarrow> error \<times> db + db" where
  "update_item_stock [] s = Inr s"
| "update_item_stock (it # rest) s =
     (case Item_inc_stock (itemId it) (fneg (quantity it)) s of
        Inl err \<Rightarrow> Inl (err, s)
      | Inr s' \<Rightarrow> update_item_stock rest s')"

text \<open>The literal \<^verbatim>\<open>0.01\<close> of lines 285 and 290.\<close>

definition tolerance :: number where
  "tolerance = round_double (1 / 100)"

text \<open>
  Lines 294-350: the writes. A \<^verbatim>\<open>save()\<close> that throws reaches the \<^verbatim>\<open>catch\<close> of
  line 351 with everything written before it still in place.
\<close>

definition persist_bill :: "oid \<Rightarrow> customer \<Rightarrow> bill_line list \<Rightarrow> bill_body \<Rightarrow> db \<Rightarrow> reply \<times> db" where
  "persist_bill customerId cust ls b s =
     (let (bill_id, s1) = new_oid s;
          bill = \<lparr>b_customerId = customerId,
                  b_items = ls,
                  subtotal = q_subtotal b,
                  markup = q_markup b,
                  discount = q_discount b,
                  grandTotal = q_grandTotal b,
                  grandTotalCost = foldl (\<lambda>sum it. fadd sum (totalCost it)) (Finite 0) ls,
                  paymentType = q_paymentType b,
                  partialPayment = q_partialPayment b,
                  status = (if fle (q_grandTotal b) (q_partialPayment b)
                            then ''completed'' else ''pending'')\<rparr>
      in (case Bill_save bill_id bill s1 of
            Inl err \<Rightarrow> ((400, Error err), s1)
          | Inr s2 \<Rightarrow>
             (case Customer_save customerId
                     (cust\<lparr>balance := fadd (balance cust)
                                          (fsub (q_grandTotal b) (q_partialPayment b))\<rparr>) s2 of
                Inl err \<Rightarrow> ((400, Error err), s2)
              | Inr s3 \<Rightarrow>
                 (case update_item_stock ls s3 of
                    Inl (err, s') \<Rightarrow> ((400, Error err), s')
                  | Inr s4 \<Rightarrow>
                     (let (bt_id, s5) = new_oid s4;
                          billTransaction = \<lparr>t_id = bt_id,
                                              t_customerId = customerId,
                                              t_billId = Some bill_id,
                                              t_paymentId = None,
                                              t_amount = q_grandTotal b,
                                              t_type = ''bill''\<rparr>
                      in (case Transaction_save billTransaction s5 of
                            Inl err \<Rightarrow> ((400, Error err), s5)
                          | Inr s6 \<Rightarrow>
                             (if flt (Finite 0) (q_partialPayment b) then
                                (let (pay_id, s7) = new_oid s6;
                                     pay = \<lparr>p_id = pay_id,
                                            p_customerId = customerId,
                                            p_amount = q_partialPayment b,
                                            paymentMethod = q_paymentType b\<rparr>
                                 in (case Payment_save pay s7 of
                                       Inl err \<Rightarrow> ((400, Error err), s7)
                                     | Inr s8 \<Rightarrow>
                                        (let (pt_id, s9) = new_oid s8;
                                             paymentTransaction =
                                               \<lparr>t_id = pt_id,
                                                t_customerId = customerId,
                                                t_billId = Some bill_id,
                                                t_paymentId = Some pay_id,
                                                t_amount = fneg (q_partialPayment b),
                                                t_type = ''payment''\<rparr>
                                         in (case Transaction_save paymentTransaction s9 of
                                               Inl err \<Rightarrow> ((400, Error err), s9)
                                             | Inr s10 \<Rightarrow>
                                                 ((201, BillCreated bill_id bill
                                                          [billTransaction, paymentTransaction]),
                                                  s10)))))
                              else ((201, BillCreated bill_id bill [billTransaction]), s6))))))))"

text \<open>
  Lines 243-355, the handler: input checks, customer, lines, totals, then the writes. The
  tests of lines 285 and 290 are \<^verbatim>\<open>Math.abs(x - y) > 0.01\<close>.
\<close>

definition create_bill :: "bill_body \<Rightarrow> db \<Rightarrow> reply \<times> db" where
  "create_bill b s =
     (if input_errors b = [] then
        (case q_customerId b of
           None \<Rightarrow> ((400, Error (Invalid (input_errors b))), s)
         | Some customerId \<Rightarrow>
             (case Customers s customerId of
                None \<Rightarrow> ((404, Error (CustomerNotFound customerId)), s)
              | Some cust \<Rightarrow>
                  (case populatedItems s (q_items b) of
                     Inl err \<Rightarrow> ((400, Error err), s)
                   | Inr ls \<Rightarrow>
                       let calculatedSubtotal =
                             foldl (\<lambda>sum it. fadd sum (total it)) (Finite 0) ls in
                       if flt tolerance (fabs (fsub calculatedSubtotal (q_subtotal b)))
                       then ((400, Error (SubtotalMismatch (q_subtotal b) calculatedSubtotal)), s)
                       else
                         let calculatedMarkedUpSubtotal =
                               fadd (q_subtotal b)
                                 (fdiv (fmul (q_subtotal b) (q_markup b)) (Finite 100));
                             calculatedGrandTotal =
                               fsub calculatedMarkedUpSubtotal
                                 (fdiv (fmul calculatedMarkedUpSubtotal (q_discount b))
                                    (Finite 100))
                         in if flt tolerance (fabs (fsub calculatedGrandTotal (q_grandTotal b)))
                            then ((400, Error (GrandTotalMismatch (q_grandTotal b)
                                                 calculatedGrandTotal)), s)
                            else persist_bill customerId cust ls b s)))
      else ((400, Error (Invalid (input_errors b))), s))"

section \<open>POST /api/payments\<close>


section \<open>POST /api/refunds\<close>

text \<open>
  Lines 405-412, the loop over the requested lines: \<^verbatim>\<open>bill.items.find\<close> takes the
  first bill line of the same item; a line without one, or asking for more than that
  line's quantity, returns the 400 reply from inside the loop; otherwise the stock is
  incremented before the next line is looked at. The result is the error (if any) and the
  database as the loop left it.
\<close>

fun refund_items :: "bill \<Rightarrow> refund_line list \<Rightarrow> db \<Rightarrow> error option \<times> db" where
  "refund_items bl [] s = (None, s)"
| "refund_items bl (it # rest) s =
     (case find (\<lambda>bi. itemId bi = r_itemId it) (b_items bl) of
        None \<Rightarrow> (Some (InvalidRefundQuantity (r_itemId it)), s)
      | Some billItem \<Rightarrow>
          if flt (quantity billItem) (r_quantity it)
          then (Some (InvalidRefundQuantity (r_itemId it)), s)
          else
            (case Item_inc_stock (r_itemId it) (r_quantity it) s of
               Inl err \<Rightarrow> (Some err, s)
             | Inr s' \<Rightarrow> refund_items bl rest s'))"

text \<open>
  Lines 390-443, the handler. Line 423 assigns \<^verbatim>\<open>'refunded'\<close> to the bill's status and
  line 424 saves the bill, which validates the status against the enum of line 68.
\<close>

definition process_refund :: "refund_body \<Rightarrow> db \<Rightarrow> reply \<times> db" where
  "process_refund b s =
     (case rq_billId b of
        None \<Rightarrow> ((400, Error InvalidRefundData), s)
      | Some billId \<Rightarrow>
     (case rq_customerId b of
        None \<Rightarrow> ((400, Error InvalidRefundData), s)
      | Some customerId \<Rightarrow>
         (if falsy (rq_amount b) \<or> fle (rq_amount b) (Finite 0) \<or> rq_items b = [] \<or>
             rq_reason b = []
          then ((400, Error InvalidRefundData), s)
          else
            (case Bills s billId of
               None \<Rightarrow> ((400, Error BillNotFoundOrRefunded), s)
             | Some bl \<Rightarrow>
                (if status bl = ''refunded'' then ((400, Error BillNotFoundOrRefunded), s)
                 else
                   (case Customers s customerId of
                      None \<Rightarrow> ((404, Error (CustomerNotFound customerId)), s)
                    | Some cust \<Rightarrow>
                       (case refund_items bl (rq_items b) s of
                          (Some err, s1) \<Rightarrow> ((400, Error err), s1)
                        | (None, s1) \<Rightarrow>
                           (let (ref_id, s2) = new_oid s1;
                                rf = \<lparr>f_id = ref_id,
                                      f_billId = billId,
                                      f_customerId = customerId,
                                      f_amount = rq_amount b,
                                      f_items = rq_items b,
                                      f_reason = rq_reason b\<rparr>
                            in (case Refund_save rf s2 of
                                  Inl err \<Rightarrow> ((400, Error err), s2)
                                | Inr s3 \<Rightarrow>
                                   (case Bill_save billId (bl\<lparr>status := ''refunded''\<rparr>) s3 of
                                      Inl err \<Rightarrow> ((400, Error err), s3)
                                    | Inr s4 \<Rightarrow>
                                       (case Customer_save customerId
                                               (cust\<lparr>balance :=
                                                        fsub (balance cust) (rq_amount b)\<rparr>) s4 of
                                          Inl err \<Rightarrow> ((400, Error err), s4)
                                        | Inr s5 \<Rightarrow>
                                           (let (tr_id, s6) = new_oid s5;
                                                tr = \<lparr>t_id = tr_id,
                                                      t_customerId = customerId,
                                                      t_billId = Some billId,
                                                      t_paymentId = None,
                                                      t_amount = fneg (rq_amount b),
                                                      t_type = ''refund''\<rparr>
                                            in (case Transaction_save tr s6 of
                                                  Inl err \<Rightarrow> ((400, Error err), s6)
                                                | Inr s7 \<Rightarrow>
                                                    ((201, RefundProcessed rf tr),
                                                     s7))))))))))))))"

section \<open>POST /api/customers\<close>



section \<open>Sequences of requests\<close>




section \<open>The specification's scenario\<close>

text \<open>
  Item A (id 0) with cost price 10, selling price 20 and stock 5; the customers Ann
  (id 1) and Bob (id 2) with balance 0; a bill of one line, 2 of A at custom price 25,
  subtotal 50, markup 10, discount 0, grand total 55, paid in full in cash. Then the same
  bill with the subtotal sent as 45, with the grand total sent as 50, and with 6 of A on
  its line.
\<close>

definition shop :: db where
  "shop = \<lparr>Items = [0 \<mapsto> \<lparr>name = ''A'', costPrice = Some (Finite 10),
                             sellingPrice = Finite 20, stock = Finite 5\<rparr>],
           Customers = [1 \<mapsto> \<lparr>c_name = ''Ann'', phone = ''555'', accountNumber = ''ACC-1'',
                                 balance = Finite 0\<rparr>,
                        2 \<mapsto> \<lparr>c_name = ''Bob'', phone = ''556'', accountNumber = ''ACC-2'',
                                 balance = Finite 0\<rparr>],
           Bills = Map.empty, Payments = [], Transactions = [], Refunds = [], next_oid = 3\<rparr>"

definition line_A :: "rat \<Rightarrow> line_body" where
  "line_A q = \<lparr>l_itemId = Some 0, l_quantity = Finite q, l_unitPrice = Finite 20,
               l_customPrice = Finite 25, l_total = Finite (q * 25)\<rparr>"

definition scenario_bill :: bill_body where
  "scenario_bill = \<lparr>q_customerId = Some 1, q_items = [line_A 2], q_subtotal = Finite 50,
      q_markup = Finite 10, q_discount = Finite 0, q_grandTotal = Finite 55,
      q_paymentType = ''cash'', q_partialPayment = Finite 55\<rparr>"

definition tampered_subtotal :: bill_body where
  "tampered_subtotal = scenario_bill\<lparr>q_subtotal := Finite 45\<rparr>"

definition tampered_grandTotal :: bill_body where
  "tampered_grandTotal = scenario_bill\<lparr>q_grandTotal := Finite 50\<rparr>"

definition oversold_bill :: bill_body where
  "oversold_bill =
     scenario_bill\<lparr>q_items := [line_A 6], q_subtotal := Finite 150, q_grandTotal := Finite 165\<rparr>"

text \<open>
  Further requests on the scenario: a bill with two lines of 3 of A each (5 in stock), a
  bill naming an item that does not exist (id 7) and one naming a customer that does not
  exist (id 9).
\<close>

definition duplicate_lines_bill :: bill_body where
  "duplicate_lines_bill =
     scenario_bill\<lparr>q_items := [line_A 3, line_A 3], q_subtotal := Finite 150,
       q_grandTotal := Finite 165, q_partialPayment := Finite 165\<rparr>"

definition unknown_item_bill :: bill_body where
  "unknown_item_bill = scenario_bill\<lparr>q_items := [(line_A 2)\<lparr>l_itemId := Some 7\<rparr>]\<rparr>"

definition unknown_customer_bill :: bill_body where
  "unknown_customer_bill = scenario_bill\<lparr>q_customerId := Some 9\<rparr>"

text \<open>
  The database after the scenario's bill (the bill gets id 3), and refund requests against
  that bill: the whole line for the amount paid, the same naming Bob instead of Ann, the
  same for an amount of 1000, and one whose second line asks for more than was sold.
\<close>

definition billed :: db where
  "billed = snd (create_bill scenario_bill shop)"

definition full_refund :: refund_body where
  "full_refund = \<lparr>rq_billId = Some 3, rq_customerId = Some 1, rq_amount = Finite 55,
      rq_items = [\<lparr>r_itemId = 0, r_quantity = Finite 2\<rparr>], rq_reason = ''returned''\<rparr>"

definition refund_naming_bob :: refund_body where
  "refund_naming_bob = full_refund\<lparr>rq_customerId := Some 2\<rparr>"

definition refund_of_1000 :: refund_body where
  "refund_of_1000 = full_refund\<lparr>rq_amount := Finite 1000\<rparr>"

definition refund_second_line_bad :: refund_body where
  "refund_second_line_bad =
     full_refund\<lparr>rq_items := [\<lparr>r_itemId = 0, r_quantity = Finite 1\<rparr>,
                               \<lparr>r_itemId = 0, r_quantity = Finite 3\<rparr>]\<rparr>"

section \<open>The totals as the handler recomputes them\<close>

text \<open>
  The subtotal of a request: the sum over its lines, in order from 0, of quantity times
  custom price; the grand total of a subtotal, a markup and a discount: the subtotal plus
  its markup percentage, minus the discount percentage of that; each operation rounded as
  lines 278, 284, 288 and 289 perform it. Two totals are within the tolerance when the
  absolute value of their binary64 difference is at most the binary64 value of 0.01.
\<close>

definition recomputed_subtotal :: "line_body list \<Rightarrow> number" where
  "recomputed_subtotal ls =
     foldl (\<lambda>sum l. fadd sum (fmul (l_quantity l) (l_customPrice l))) (Finite 0) ls"

definition recomputed_grandTotal :: "number \<Rightarrow> number \<Rightarrow> number \<Rightarrow> number" where
  "recomputed_grandTotal sub mk disc =
     (let marked = fadd sub (fdiv (fmul sub mk) (Finite 100))
      in fsub marked (fdiv (fmul marked disc) (Finite 100)))"

definition within_tolerance :: "number \<Rightarrow> number \<Rightarrow> bool" where
  "within_tolerance x y = fle (fabs (fsub x y)) tolerance"


section \<open>Requests that rounding decides\<close>

text \<open>
  The literal \<^verbatim>\<open>0.1\<close> is read as the nearest binary64 value. Ann owing 0.1, and a bill
  of 1 of A at custom price 0.1: subtotal and grand total 0.1, no markup, no discount,
  0.5 paid with it.
\<close>

definition tenth :: number where
  "tenth = round_double (1 / 10)"



text \<open>
  A bill of 3 of A at custom price 3002399751580331, on credit: the product is
  \<open>2^53 + 1\<close>, which is not a binary64 value; subtotal and grand total are sent as
  \<open>2^53 = 9007199254740992\<close>.
\<close>

definition rounded_bill :: bill_body where
  "rounded_bill =
     \<lparr>q_customerId = Some 1,
      q_items = [\<lparr>l_itemId = Some 0, l_quantity = Finite 3, l_unitPrice = Finite 20,
                  l_customPrice = Finite 3002399751580331,
                  l_total = Finite 9007199254740992\<rparr>],
      q_subtotal = Finite 9007199254740992, q_markup = Finite 0, q_discount = Finite 0,
      q_grandTotal = Finite 9007199254740992,
      q_paymentType = ''credit'', q_partialPayment = Finite 0\<rparr>"



text \<open>The scenario's bill with the subtotal sent as 45, for a customer that does not exist.\<close>

definition tampered_unknown_customer :: bill_body where
  "tampered_unknown_customer = tampered_subtotal\<lparr>q_customerId := Some 9\<rparr>"

section \<open>The ledger and its replay\<close>














section \<open>Facts about the arithmetic\<close>

text \<open>Integers below \<open>2^53\<close> in magnitude are binary64 values: rounding leaves them.\<close>

lemma round_half_even_of_int [simp]: "round_half_even (of_int m) = m"
  by (simp add: round_half_even_def)

lemma bitlen_small:
  assumes "0 < n" "n < 2 ^ 53"
  shows "1 \<le> bitlen n \<and> bitlen n \<le> 53"
proof -
  from bitlen_bounds[OF assms(1)] have lo: "2 ^ nat (bitlen n - 1) \<le> n" by simp
  have "1 \<le> bitlen n" using assms(1) by (simp add: bitlen_alt_def)
  moreover have "bitlen n \<le> 53"
  proof (rule ccontr)
    assume "\<not> bitlen n \<le> 53"
    then have "53 \<le> nat (bitlen n - 1)" by simp
    then have "(2::int) ^ 53 \<le> 2 ^ nat (bitlen n - 1)"
      by (rule power_increasing) simp
    with lo assms(2) show False by simp
  qed
  ultimately show ?thesis by simp
qed

lemma round_double_int:
  assumes "\<bar>n\<bar> < 2 ^ 53"
  shows "round_double (of_int n) = Finite (of_int n)"
proof (cases "n = 0")
  case True
  then show ?thesis by (simp add: round_double_def)
next
  case False
  then have pos: "0 < \<bar>n\<bar>" by simp
  define e where "e = bitlen \<bar>n\<bar> - 1"
  have e: "0 \<le> e" "e \<le> 52" using bitlen_small[OF pos assms] by (simp_all add: e_def)
  have "(1::rat) \<le> \<bar>of_int n\<bar>" using False by (simp flip: of_int_abs)
  then have il: "ilog2 (of_int n) = e"
    by (simp add: ilog2_def e_def flip: of_int_abs)
  define k where "k = nat (52 - e)"
  have q: "(2::rat) powi (e - 52) = 1 / 2 ^ k"
    using e by (simp add: power_int_def k_def nat_diff_distrib power_one_over)
  have "(of_int n :: rat) * 2 ^ k = of_int (n * 2 ^ k)"
    by simp
  then have r: "round_half_even (of_int n * 2 ^ k) = n * 2 ^ k"
    by (simp only: round_half_even_of_int)
  have me: "max e (- 1022) = e" using e by simp
  have ne: "(of_int n :: rat) \<noteq> 0" using False by simp
  show ?thesis
    using e ne by (simp add: round_double_def il me q r Let_def)
qed

lemma round_double_numeral [simp]:
  "(numeral k :: int) < 2 ^ 53 \<Longrightarrow> round_double (numeral k) = Finite (numeral k)"
  using round_double_int[of "numeral k"] by simp

lemma round_double_neg_numeral [simp]:
  "(numeral k :: int) < 2 ^ 53 \<Longrightarrow> round_double (- numeral k) = Finite (- numeral k)"
  using round_double_int[of "- numeral k"] by simp

lemma round_double_0 [simp]: "round_double 0 = Finite 0"
  by (simp add: round_double_def)

lemma round_double_1 [simp]: "round_double 1 = Finite 1"
  using round_double_int[of 1] by simp

lemma round_double_neg_1 [simp]: "round_double (- 1) = Finite (- 1)"
  using round_double_int[of "- 1"] by simp

text \<open>Rounding never gives NaN; the literal 0.01 is a finite value.\<close>

lemma round_double_not_NaN [simp]: "round_double x \<noteq> NaN"
  by (simp add: round_double_def infinity_of_def Let_def)

lemma tolerance_value: "tolerance = Finite (5764607523034235 / 576460752303423488)"
  unfolding tolerance_def by code_simp

text \<open>Where NaN comes from, and what the comparisons say without it.\<close>

lemma fneg_NaN [simp]: "fneg x = NaN \<longleftrightarrow> x = NaN"
  by (cases x) simp_all

lemma fabs_NaN [simp]: "fabs x = NaN \<longleftrightarrow> x = NaN"
  by (cases x) simp_all

lemma falsy_NaN: "\<not> falsy x \<Longrightarrow> x \<noteq> NaN"
  by (cases x) simp_all

lemma fneg_zero [simp]: "fneg (Finite 0) = Finite 0"
  by simp

lemma not_flt_fle: "\<not> flt a b \<Longrightarrow> a \<noteq> NaN \<Longrightarrow> b \<noteq> NaN \<Longrightarrow> fle b a"
  by (cases a; cases b) simp_all

lemma flt_not_fle: "flt a b \<Longrightarrow> \<not> fle b a"
  by (cases a; cases b) simp_all

lemma flt_not_NaN: "flt a b \<Longrightarrow> a \<noteq> NaN \<and> b \<noteq> NaN"
  by (cases a; cases b) simp_all



text \<open>The values that the requests deciding by rounding use.\<close>

lemma tenth_value: "tenth = Finite (3602879701896397 / 36028797018963968)"
  unfolding tenth_def by code_simp

lemma round_double_2_53: "round_double 9007199254740992 = Finite 9007199254740992"
  by code_simp

lemma round_double_2_53_1: "round_double 9007199254740993 = Finite 9007199254740992"
  by code_simp









section \<open>Evaluation rules\<close>

lemmas bill_eval =
  create_bill_def input_errors_def populatedItems_def populate_line_def line_fields_missing_def
  persist_bill_def new_oid_def Bill_save_def Customer_save_def Item_inc_stock_def
  Transaction_save_def Payment_save_def billSchema_paymentType_enum_def
  billSchema_status_enum_def paymentSchema_paymentMethod_enum_def
  transactionSchema_type_enum_def first_NaN_def bill_numbers_def bill_line_numbers_def
  tolerance_value fsub_def Let_def

lemmas scenario_eval = scenario_bill_def line_A_def shop_def tampered_subtotal_def
  tampered_grandTotal_def oversold_bill_def

lemmas more_eval = duplicate_lines_bill_def unknown_item_bill_def unknown_customer_bill_def

lemmas refund_eval =
  process_refund_def Refund_save_def billed_def full_refund_def refund_naming_bob_def
  refund_of_1000_def refund_second_line_bad_def

section \<open>What the writes of a bill do\<close>




lemma input_errors_Nil:
  assumes "input_errors b = []"
  shows "q_customerId b \<noteq> None" "q_paymentType b \<in> {''cash'', ''credit''}"
    "\<not> flt (q_partialPayment b) (Finite 0)"
  using assms by (auto simp: input_errors_def split: if_splits)




section \<open>What the validator computes\<close>

lemma foldl_map_fadd:
  "foldl (\<lambda>sum x. fadd sum (f x)) a xs = foldl fadd a (map f xs)"
  by (induction xs arbitrary: a) simp_all

lemma populate_line_Inr:
  assumes "populate_line s k l = Inr p"
  shows "total p = fmul (l_quantity l) (l_customPrice l)" "quantity p \<noteq> NaN"
    "\<exists>i it. l_itemId l = Some i \<and> Items s i = Some it \<and> \<not> flt (stock it) (l_quantity l)"
proof -
  from assms obtain i it cost where i: "l_itemId l = Some i" and m: "\<not> line_fields_missing l"
    and it: "Items s i = Some it" and st: "\<not> flt (stock it) (l_quantity l)"
    and p: "p = \<lparr>itemId = i, quantity = l_quantity l, unitPrice = l_unitPrice l,
        customPrice = l_customPrice l, unitCost = cost,
        total = fmul (l_quantity l) (l_customPrice l),
        totalCost = fmul (l_quantity l) cost\<rparr>"
    by (simp add: populate_line_def split: option.splits if_splits) blast
  from m have "l_quantity l \<noteq> NaN"
    by (simp add: line_fields_missing_def falsy_NaN)
  with p show "total p = fmul (l_quantity l) (l_customPrice l)" "quantity p \<noteq> NaN"
    by simp_all
  from i it st
  show "\<exists>i it. l_itemId l = Some i \<and> Items s i = Some it \<and> \<not> flt (stock it) (l_quantity l)"
    by blast
qed

lemma populate_lines_Cons:
  assumes "populate_lines s k (a # ls) = Inr ps"
  obtains p ps' where "populate_line s k a = Inr p" "populate_lines s (Suc k) ls = Inr ps'"
    "ps = p # ps'"
  using assms by (auto split: sum.splits)

lemma populate_lines_total:
  "populate_lines s k ls = Inr ps \<Longrightarrow>
   map total ps = map (\<lambda>l. fmul (l_quantity l) (l_customPrice l)) ls"
proof (induction ls arbitrary: k ps)
  case Nil
  then show ?case by simp
next
  case (Cons a ls)
  from Cons.prems obtain p ps' where a: "populate_line s k a = Inr p"
    and rest: "populate_lines s (Suc k) ls = Inr ps'" and ps: "ps = p # ps'"
    by (rule populate_lines_Cons)
  show ?case
    unfolding ps using Cons.IH[OF rest] populate_line_Inr(1)[OF a] by simp
qed

lemma populate_lines_quantity:
  "populate_lines s k ls = Inr ps \<Longrightarrow> list_all (\<lambda>p. quantity p \<noteq> NaN) ps"
proof (induction ls arbitrary: k ps)
  case Nil
  then show ?case by simp
next
  case (Cons a ls)
  from Cons.prems obtain p ps' where a: "populate_line s k a = Inr p"
    and rest: "populate_lines s (Suc k) ls = Inr ps'" and ps: "ps = p # ps'"
    by (rule populate_lines_Cons)
  show ?case
    unfolding ps using Cons.IH[OF rest] populate_line_Inr(2)[OF a] by simp
qed

lemma populate_lines_stock:
  "populate_lines s k ls = Inr ps \<Longrightarrow> l \<in> set ls \<Longrightarrow>
   \<exists>i it. l_itemId l = Some i \<and> Items s i = Some it \<and> \<not> flt (stock it) (l_quantity l)"
proof (induction ls arbitrary: k ps)
  case Nil
  then show ?case by simp
next
  case (Cons a ls)
  from Cons.prems(1) obtain p ps' where a: "populate_line s k a = Inr p"
    and rest: "populate_lines s (Suc k) ls = Inr ps'" and ps: "ps = p # ps'"
    by (rule populate_lines_Cons)
  show ?case
  proof (cases "l = a")
    case True
    then show ?thesis using populate_line_Inr(3)[OF a] by simp
  next
    case False
    then have "l \<in> set ls" using Cons.prems(2) by simp
    then show ?thesis by (rule Cons.IH[OF rest])
  qed
qed

lemma populatedItems_Inr:
  assumes "populatedItems s ls = Inr ps"
  shows "foldl (\<lambda>sum it. fadd sum (total it)) (Finite 0) ps = recomputed_subtotal ls"
    and "list_all (\<lambda>p. quantity p \<noteq> NaN) ps"
    and "\<And>l. l \<in> set ls \<Longrightarrow>
      \<exists>i it. l_itemId l = Some i \<and> Items s i = Some it \<and> \<not> flt (stock it) (l_quantity l)"
proof -
  from assms have pl: "populate_lines s 0 ls = Inr ps"
    by (simp add: populatedItems_def split: option.splits)
  from populate_lines_total[OF pl]
  show "foldl (\<lambda>sum it. fadd sum (total it)) (Finite 0) ps = recomputed_subtotal ls"
    by (simp add: recomputed_subtotal_def foldl_map_fadd[where f = total]
        foldl_map_fadd[where f = "\<lambda>l. fmul (l_quantity l) (l_customPrice l)"])
  show "list_all (\<lambda>p. quantity p \<noteq> NaN) ps"
    by (rule populate_lines_quantity[OF pl])
  show "\<exists>i it. l_itemId l = Some i \<and> Items s i = Some it \<and> \<not> flt (stock it) (l_quantity l)"
    if "l \<in> set ls" for l
    using pl that by (rule populate_lines_stock)
qed

text \<open>
  The test \<^verbatim>\<open>Math.abs(x - y) > 0.01\<close> holds exactly when the difference is a number
  and is not within the tolerance.
\<close>

lemma exceeds_iff:
  "flt tolerance (fabs (fsub x y)) \<longleftrightarrow> fsub x y \<noteq> NaN \<and> \<not> within_tolerance x y"
  by (cases "fsub x y") (auto simp: within_tolerance_def tolerance_value)

text \<open>The handler with its checks named: what it returns once the lines are resolved.\<close>

lemma create_bill_resolved:
  assumes "input_errors b = []" "q_customerId b = Some cid" "Customers s cid = Some cust"
    "populatedItems s (q_items b) = Inr ls"
  shows "create_bill b s =
     (if flt tolerance (fabs (fsub (recomputed_subtotal (q_items b)) (q_subtotal b)))
      then ((400, Error (SubtotalMismatch (q_subtotal b) (recomputed_subtotal (q_items b)))), s)
      else if flt tolerance
                (fabs (fsub (recomputed_grandTotal (q_subtotal b) (q_markup b) (q_discount b))
                         (q_grandTotal b)))
      then ((400, Error (GrandTotalMismatch (q_grandTotal b)
                (recomputed_grandTotal (q_subtotal b) (q_markup b) (q_discount b)))), s)
      else persist_bill cid cust ls b s)"
  using assms populatedItems_Inr(1)[OF assms(4)]
  by (simp add: create_bill_def Let_def recomputed_grandTotal_def)

lemma create_bill_cases:
  obtains (rejected) "snd (create_bill b s) = s" "fst (fst (create_bill b s)) \<in> {400, 404}"
  | (resolved) cid cust ls where "input_errors b = []" "q_customerId b = Some cid"
      "Customers s cid = Some cust" "populatedItems s (q_items b) = Inr ls"
      "\<not> flt tolerance (fabs (fsub (recomputed_subtotal (q_items b)) (q_subtotal b)))"
      "\<not> flt tolerance
           (fabs (fsub (recomputed_grandTotal (q_subtotal b) (q_markup b) (q_discount b))
                    (q_grandTotal b)))"
      "create_bill b s = persist_bill cid cust ls b s"
proof (cases "input_errors b = []")
  case False
  then show ?thesis using rejected by (simp add: create_bill_def)
next
  case ie: True
  then obtain cid where cid: "q_customerId b = Some cid"
    using input_errors_Nil(1) by blast
  show ?thesis
  proof (cases "Customers s cid")
    case None
    then show ?thesis using rejected ie cid by (simp add: create_bill_def)
  next
    case (Some cust)
    show ?thesis
    proof (cases "populatedItems s (q_items b)")
      case (Inl e)
      then show ?thesis using rejected ie cid Some by (simp add: create_bill_def)
    next
      case (Inr ls)
      note eq = create_bill_resolved[OF ie cid Some Inr]
      show ?thesis
      proof (cases "flt tolerance (fabs (fsub (recomputed_subtotal (q_items b)) (q_subtotal b)))
          \<or> flt tolerance
           (fabs (fsub (recomputed_grandTotal (q_subtotal b) (q_markup b) (q_discount b))
                    (q_grandTotal b)))")
        case True
        then show ?thesis using rejected eq by auto
      next
        case False
        then show ?thesis using resolved[OF ie cid Some Inr] eq by simp
      qed
    qed
  qed
qed


section \<open>Bill creation: balance, ledger, totals, rejection\<close>




text \<open>
  Claim C3. The validator accepts a request only if the subtotal the client sent is
  within 0.01 of the sum over the lines of quantity times custom price and the grand total
  the client sent is within 0.01 of \<open>(subtotal * (1 + markup/100)) * (1 - discount/100)\<close>;
  any larger mismatch is rejected with an error naming the provided and the recomputed
  value. This fails twice. The handler recomputes in binary64: for a line of 3 at custom
  price 3002399751580331 the product \<open>2^53 + 1\<close> is rounded to \<open>2^53\<close>, so the
  request that sends \<open>2^53\<close> as subtotal, 1 away from the sum of its line, is accepted.
  And the totals are looked at only after the customer and the lines: the scenario's bill
  with the subtotal sent as 45 instead of 50 and a customer that does not exist is
  answered 404, with an error naming the customer.
\<close>

theorem create_bill_accepts_rounded_subtotal:
  "map (\<lambda>l. (l_quantity l, l_customPrice l)) (q_items rounded_bill) =
     [(Finite 3, Finite 3002399751580331)] \<and>
   q_subtotal rounded_bill = Finite 9007199254740992 \<and>
   (1 / 100 :: rat) < \<bar>3 * 3002399751580331 - 9007199254740992\<bar> \<and>
   fst (fst (create_bill rounded_bill shop)) = 201 \<and>
   q_subtotal tampered_unknown_customer = Finite 45 \<and>
   recomputed_subtotal (q_items tampered_unknown_customer) = Finite 50 \<and>
   create_bill tampered_unknown_customer shop = ((404, Error (CustomerNotFound 9)), shop)"
proof -
  have a: "map (\<lambda>l. (l_quantity l, l_customPrice l)) (q_items rounded_bill) =
     [(Finite 3, Finite 3002399751580331)] \<and>
   q_subtotal rounded_bill = Finite 9007199254740992 \<and>
   (1 / 100 :: rat) < \<bar>3 * 3002399751580331 - 9007199254740992\<bar>"
    by (simp add: rounded_bill_def)
  have b: "fst (fst (create_bill rounded_bill shop)) = 201"
    by code_simp
  have c: "q_subtotal tampered_unknown_customer = Finite 45 \<and>
   recomputed_subtotal (q_items tampered_unknown_customer) = Finite 50"
    by (simp add: tampered_unknown_customer_def recomputed_subtotal_def scenario_eval)
  have d: "create_bill tampered_unknown_customer shop =
      ((404, Error (CustomerNotFound 9)), shop)"
    by (simp add: create_bill_def input_errors_def tampered_unknown_customer_def scenario_eval)
  show ?thesis
    by (intro conjI a[THEN conjunct1] a[THEN conjunct2, THEN conjunct1]
        a[THEN conjunct2, THEN conjunct2] b c[THEN conjunct1] c[THEN conjunct2] d)
qed

text \<open>
  Claim C3, amended. The totals are recomputed in binary64, each operation rounded: the
  subtotal as the sum over the lines of quantity times custom price, the grand total as
  the subtotal plus its markup percentage, less the discount percentage of that. Two
  totals are within the tolerance when the absolute value of their binary64 difference is
  at most the binary64 value of 0.01. The validator accepts a request (reply 201) only if,
  for the subtotal and for the grand total, the difference between the recomputed and the
  sent total is NaN or the two are within the tolerance. When the request reaches the
  verification of the totals (input checks passed, customer found, lines resolved), a
  subtotal whose difference is a number beyond the tolerance gets the reply 400 whose
  error names the provided and the recomputed subtotal, and otherwise a grand total whose
  difference is a number beyond the tolerance gets the reply 400 whose error names the
  provided and the recomputed grand total; the database is returned as it was.
\<close>

theorem create_bill_verifies_totals:
  "(fst (fst (create_bill b s)) = 201 \<longrightarrow>
      (fsub (recomputed_subtotal (q_items b)) (q_subtotal b) = NaN \<or>
       within_tolerance (recomputed_subtotal (q_items b)) (q_subtotal b)) \<and>
      (fsub (recomputed_grandTotal (q_subtotal b) (q_markup b) (q_discount b))
            (q_grandTotal b) = NaN \<or>
       within_tolerance (recomputed_grandTotal (q_subtotal b) (q_markup b) (q_discount b))
         (q_grandTotal b))) \<and>
   (input_errors b = [] \<and> q_customerId b = Some cid \<and> Customers s cid = Some cust \<and>
    populatedItems s (q_items b) = Inr ls \<longrightarrow>
      (fsub (recomputed_subtotal (q_items b)) (q_subtotal b) \<noteq> NaN \<and>
       \<not> within_tolerance (recomputed_subtotal (q_items b)) (q_subtotal b) \<longrightarrow>
         create_bill b s =
           ((400, Error (SubtotalMismatch (q_subtotal b) (recomputed_subtotal (q_items b)))),
            s)) \<and>
      ((fsub (recomputed_subtotal (q_items b)) (q_subtotal b) = NaN \<or>
        within_tolerance (recomputed_subtotal (q_items b)) (q_subtotal b)) \<and>
       fsub (recomputed_grandTotal (q_subtotal b) (q_markup b) (q_discount b))
            (q_grandTotal b) \<noteq> NaN \<and>
       \<not> within_tolerance (recomputed_grandTotal (q_subtotal b) (q_markup b) (q_discount b))
            (q_grandTotal b) \<longrightarrow>
         create_bill b s =
           ((400, Error (GrandTotalMismatch (q_grandTotal b)
                    (recomputed_grandTotal (q_subtotal b) (q_markup b) (q_discount b)))),
            s)))"
proof -
  let ?sub = "recomputed_subtotal (q_items b)"
  let ?grand = "recomputed_grandTotal (q_subtotal b) (q_markup b) (q_discount b)"
  have accept: "\<not> flt tolerance (fabs (fsub ?sub (q_subtotal b))) \<and>
      \<not> flt tolerance (fabs (fsub ?grand (q_grandTotal b)))"
    if "fst (fst (create_bill b s)) = 201"
  proof (cases b s rule: create_bill_cases)
    case rejected
    then show ?thesis using that by auto
  next
    case (resolved cid cust ls)
    then show ?thesis by simp
  qed
  have reject: "create_bill b s =
      (if flt tolerance (fabs (fsub ?sub (q_subtotal b)))
       then ((400, Error (SubtotalMismatch (q_subtotal b) ?sub)), s)
       else if flt tolerance (fabs (fsub ?grand (q_grandTotal b)))
       then ((400, Error (GrandTotalMismatch (q_grandTotal b) ?grand)), s)
       else persist_bill cid cust ls b s)"
    if "input_errors b = [] \<and> q_customerId b = Some cid \<and> Customers s cid = Some cust \<and>
      populatedItems s (q_items b) = Inr ls"
    using that by (intro create_bill_resolved) simp_all
  show ?thesis
  proof (intro conjI impI)
    assume ok: "fst (fst (create_bill b s)) = 201"
    from accept[OF ok] show "fsub ?sub (q_subtotal b) = NaN \<or> within_tolerance ?sub (q_subtotal b)"
      by (simp add: exceeds_iff)
    from accept[OF ok]
    show "fsub ?grand (q_grandTotal b) = NaN \<or> within_tolerance ?grand (q_grandTotal b)"
      by (simp add: exceeds_iff)
  next
    assume pre: "input_errors b = [] \<and> q_customerId b = Some cid \<and>
        Customers s cid = Some cust \<and> populatedItems s (q_items b) = Inr ls"
      and far: "fsub ?sub (q_subtotal b) \<noteq> NaN \<and> \<not> within_tolerance ?sub (q_subtotal b)"
    from far have "flt tolerance (fabs (fsub ?sub (q_subtotal b)))"
      by (simp add: exceeds_iff)
    with reject[OF pre]
    show "create_bill b s = ((400, Error (SubtotalMismatch (q_subtotal b) ?sub)), s)"
      by simp
  next
    assume pre: "input_errors b = [] \<and> q_customerId b = Some cid \<and>
        Customers s cid = Some cust \<and> populatedItems s (q_items b) = Inr ls"
      and far: "(fsub ?sub (q_subtotal b) = NaN \<or> within_tolerance ?sub (q_subtotal b)) \<and>
        fsub ?grand (q_grandTotal b) \<noteq> NaN \<and> \<not> within_tolerance ?grand (q_grandTotal b)"
    from far have "\<not> flt tolerance (fabs (fsub ?sub (q_subtotal b)))"
      and "flt tolerance (fabs (fsub ?grand (q_grandTotal b)))"
      by (auto simp: exceeds_iff)
    with reject[OF pre]
    show "create_bill b s = ((400, Error (GrandTotalMismatch (q_grandTotal b) ?grand)), s)"
      by simp
  qed
qed

theorem create_bill_verifies_totals_witness:
  "fst (fst (create_bill scenario_bill shop)) = 201 \<and>
   within_tolerance (recomputed_subtotal (q_items scenario_bill)) (q_subtotal scenario_bill) \<and>
   within_tolerance
     (recomputed_grandTotal (q_subtotal scenario_bill) (q_markup scenario_bill)
        (q_discount scenario_bill))
     (q_grandTotal scenario_bill) \<and>
   \<not> within_tolerance (recomputed_subtotal (q_items tampered_subtotal))
        (q_subtotal tampered_subtotal) \<and>
   create_bill tampered_subtotal shop =
     ((400, Error (SubtotalMismatch (Finite 45) (Finite 50))), shop) \<and>
   \<not> within_tolerance
        (recomputed_grandTotal (q_subtotal tampered_grandTotal) (q_markup tampered_grandTotal)
           (q_discount tampered_grandTotal))
        (q_grandTotal tampered_grandTotal) \<and>
   create_bill tampered_grandTotal shop =
     ((400, Error (GrandTotalMismatch (Finite 50) (Finite 55))), shop)"
proof -
  let ?ann = "\<lparr>c_name = ''Ann'', phone = ''555'', accountNumber = ''ACC-1'',
      balance = Finite 0\<rparr>"
  let ?ls = "[\<lparr>itemId = 0, quantity = Finite 2, unitPrice = Finite 20, customPrice = Finite 25,
              unitCost = Finite 10, total = Finite 50, totalCost = Finite 20\<rparr>]"
  have ok: "fst (fst (create_bill scenario_bill shop)) = 201"
    by (simp add: bill_eval scenario_eval)
  have pre1: "input_errors tampered_subtotal = [] \<and> q_customerId tampered_subtotal = Some 1 \<and>
      Customers shop 1 = Some ?ann \<and>
      populatedItems shop (q_items tampered_subtotal) = Inr ?ls"
    by (simp add: input_errors_def populatedItems_def populate_line_def line_fields_missing_def
        scenario_eval)
  have pre2: "input_errors tampered_grandTotal = [] \<and> q_customerId tampered_grandTotal = Some 1 \<and>
      Customers shop 1 = Some ?ann \<and>
      populatedItems shop (q_items tampered_grandTotal) = Inr ?ls"
    by (simp add: input_errors_def populatedItems_def populate_line_def line_fields_missing_def
        scenario_eval)
  have v1: "q_subtotal tampered_subtotal = Finite 45"
    "recomputed_subtotal (q_items tampered_subtotal) = Finite 50"
    by (simp_all add: recomputed_subtotal_def scenario_eval)
  have v2: "q_grandTotal tampered_grandTotal = Finite 50"
    "recomputed_grandTotal (q_subtotal tampered_grandTotal) (q_markup tampered_grandTotal)
        (q_discount tampered_grandTotal) = Finite 55"
    "q_subtotal tampered_grandTotal = Finite 50"
    "recomputed_subtotal (q_items tampered_grandTotal) = Finite 50"
    by (simp_all add: recomputed_subtotal_def recomputed_grandTotal_def fsub_def scenario_eval)
  have num0: "fsub (recomputed_subtotal (q_items scenario_bill)) (q_subtotal scenario_bill) \<noteq> NaN"
    "fsub (recomputed_grandTotal (q_subtotal scenario_bill) (q_markup scenario_bill)
        (q_discount scenario_bill)) (q_grandTotal scenario_bill) \<noteq> NaN"
    by (simp_all add: recomputed_subtotal_def recomputed_grandTotal_def within_tolerance_def fsub_def
        tolerance_value scenario_eval)
  have far1: "fsub (recomputed_subtotal (q_items tampered_subtotal))
        (q_subtotal tampered_subtotal) \<noteq> NaN \<and>
      \<not> within_tolerance (recomputed_subtotal (q_items tampered_subtotal))
        (q_subtotal tampered_subtotal)"
    by (simp add: recomputed_subtotal_def recomputed_grandTotal_def within_tolerance_def fsub_def
        tolerance_value scenario_eval)
  have near2: "within_tolerance (recomputed_subtotal (q_items tampered_grandTotal))
      (q_subtotal tampered_grandTotal)"
    by (simp add: recomputed_subtotal_def recomputed_grandTotal_def within_tolerance_def fsub_def
        tolerance_value scenario_eval)
  have far2: "fsub (recomputed_grandTotal (q_subtotal tampered_grandTotal)
         (q_markup tampered_grandTotal) (q_discount tampered_grandTotal))
        (q_grandTotal tampered_grandTotal) \<noteq> NaN \<and>
      \<not> within_tolerance
        (recomputed_grandTotal (q_subtotal tampered_grandTotal) (q_markup tampered_grandTotal)
           (q_discount tampered_grandTotal))
        (q_grandTotal tampered_grandTotal)"
    by (simp add: recomputed_subtotal_def recomputed_grandTotal_def within_tolerance_def fsub_def
        tolerance_value scenario_eval)
  have a: "within_tolerance (recomputed_subtotal (q_items scenario_bill))
        (q_subtotal scenario_bill) \<and>
      within_tolerance
        (recomputed_grandTotal (q_subtotal scenario_bill) (q_markup scenario_bill)
           (q_discount scenario_bill))
        (q_grandTotal scenario_bill)"
    using create_bill_verifies_totals[where b = scenario_bill and s = shop] ok num0 by blast
  have "create_bill tampered_subtotal shop =
      ((400, Error (SubtotalMismatch (q_subtotal tampered_subtotal)
                      (recomputed_subtotal (q_items tampered_subtotal)))), shop)"
    using create_bill_verifies_totals[where b = tampered_subtotal and s = shop and cid = 1
        and cust = ?ann and ls = ?ls] pre1 far1 by blast
  then have b: "create_bill tampered_subtotal shop =
      ((400, Error (SubtotalMismatch (Finite 45) (Finite 50))), shop)"
    by (simp only: v1)
  have "create_bill tampered_grandTotal shop =
      ((400, Error (GrandTotalMismatch (q_grandTotal tampered_grandTotal)
          (recomputed_grandTotal (q_subtotal tampered_grandTotal) (q_markup tampered_grandTotal)
             (q_discount tampered_grandTotal)))), shop)"
    using create_bill_verifies_totals[where b = tampered_grandTotal and s = shop and cid = 1
        and cust = ?ann and ls = ?ls] pre2 near2 far2 by blast
  then have c: "create_bill tampered_grandTotal shop =
      ((400, Error (GrandTotalMismatch (Finite 50) (Finite 55))), shop)"
    by (simp only: v2(1,2))
  show ?thesis using ok a b c far1 far2 by blast
qed




section \<open>Bill creation: stock and reply status\<close>

text \<open>
  Claim C2. Each line's item loses exactly the line's quantity of stock, and no stock
  becomes negative, a request asking for more than the stock failing before any change.
  The handler compares each line with the stored stock on its own (line 270) and then
  decrements once per line (line 315), so two lines of the same item, each within the
  stock and together beyond it, are accepted: with 5 of A in stock, a bill of two lines of
  3 of A gets the reply 201 and leaves the stock of A at -1, having taken 6 from it.
\<close>

theorem create_bill_duplicate_lines_oversell:
  "fst (fst (create_bill duplicate_lines_bill shop)) = 201 \<and>
   map_option stock (Items shop 0) = Some (Finite 5) \<and>
   map_option stock (Items (snd (create_bill duplicate_lines_bill shop)) 0) = Some (Finite (- 1))"
  by (simp add: bill_eval scenario_eval more_eval)

text \<open>
  Claim C8. POST /bills answers 404 when the customer is absent and when an item is
  absent, and 400 on validation failures. The customer lookup of line 261 answers 404;
  the item lookup of line 269 throws, and the \<^verbatim>\<open>catch\<close> of line 353 answers 400: a bill
  naming the absent item 7 gets status 400, while a bill naming the absent customer 9 gets
  status 404.
\<close>

theorem create_bill_missing_item_status:
  "Items shop 7 = None \<and>
   create_bill unknown_item_bill shop = ((400, Error (ItemNotFound 0 7)), shop) \<and>
   Customers shop 9 = None \<and>
   create_bill unknown_customer_bill shop = ((404, Error (CustomerNotFound 9)), shop)"
  by (simp add: bill_eval scenario_eval more_eval)

section \<open>Refunds\<close>




text \<open>
  A bill that is stored with the status \<^verbatim>\<open>'refunded'\<close> is not found by the query of
  line 398, so a refund request against it is answered 400 and changes nothing.
\<close>

lemma process_refund_refunded_bill:
  assumes "rq_billId b = Some i" "Bills s i = Some bl" "status bl = ''refunded''"
  shows "fst (fst (process_refund b s)) = 400 \<and> snd (process_refund b s) = s"
  using assms by (simp add: process_refund_def split: option.splits)

text \<open>
  Claim C7. A refund request with a line that matches no line of the bill, or asks for
  more than the bill's line holds, is rejected without any change of stock or balance.
  The loop of lines 406-412 increments the stock of each line as soon as that line has
  passed, so a bad line after a good one is answered 400 with the good line's stock
  already raised: 1 of A then 3 of A against a bill line of 2 leaves the stock of A at 4
  instead of 3. The balance is untouched.
\<close>

theorem process_refund_partial_stock_on_rejection:
  "map_option stock (Items billed 0) = Some (Finite 3) \<and>
   fst (process_refund refund_second_line_bad billed) = (400, Error (InvalidRefundQuantity 0)) \<and>
   map_option stock (Items (snd (process_refund refund_second_line_bad billed)) 0) =
     Some (Finite 4)"
  by (simp add: bill_eval scenario_eval refund_eval)

text \<open>
  Claim C9. A refund naming an existing customer other than the bill's is accepted, and
  the balance decrement and the ledger entry go to the customer named in the request. The
  handler indeed never compares the two customers: the request naming Bob against Ann's
  bill passes every check. It then stops at the save of line 424 like every refund, with
  status 400, Bob's balance unchanged and no ledger entry written.
\<close>

theorem process_refund_other_customer:
  "map_option b_customerId (Bills billed 3) = Some 1 \<and>
   map_option balance (Customers billed 2) = Some (Finite 0) \<and>
   fst (process_refund refund_naming_bob billed) =
     (400, Error (EnumValidation ''status'' ''refunded'')) \<and>
   map_option balance (Customers (snd (process_refund refund_naming_bob billed)) 2) =
     Some (Finite 0) \<and>
   Transactions (snd (process_refund refund_naming_bob billed)) = Transactions billed"
  by (simp add: bill_eval scenario_eval refund_eval)

text \<open>
  Claim C10. Any positive refund amount is accepted, whatever the bill's totals, and the
  customer's balance decreases by exactly that amount. The handler indeed never compares
  the amount with the bill: a refund of 1000 against the bill of 55 passes every check. It
  then stops at the save of line 424 like every refund, with status 400, the balance
  unchanged and no ledger entry written.
\<close>

theorem process_refund_large_amount:
  "map_option grandTotal (Bills billed 3) = Some (Finite 55) \<and>
   map_option balance (Customers billed 1) = Some (Finite 0) \<and>
   fst (process_refund refund_of_1000 billed) =
     (400, Error (EnumValidation ''status'' ''refunded'')) \<and>
   map_option balance (Customers (snd (process_refund refund_of_1000 billed)) 1) =
     Some (Finite 0) \<and>
   Transactions (snd (process_refund refund_of_1000 billed)) = Transactions billed"
  by (simp add: bill_eval scenario_eval refund_eval)

section \<open>Replaying the ledger\<close>












end
